theory Spec2Isabelle
  imports Complex_Main
begin

section \<open>Numbers and errors\<close>

text \<open>
  The calculator works on Python floats. They are modelled by exact rationals: every
  arithmetic operation of the source is the rational operation, and a division by zero
  is the branch \<open>Inl ZeroDivisionError\<close>, as Python raises it for floats and ints alike.
  The binary rounding error of IEEE doubles is outside the model.
\<close>

datatype py_error = ZeroDivisionError | IndexError

text \<open>
  \<^verbatim>\<open>round(x, 2)\<close>: Python rounds to the nearest multiple of 0.01 and breaks a tie
  towards the even last digit.
\<close>

definition round_half_even :: "rat \<Rightarrow> int" where
  "round_half_even x =
     (let f = \<lfloor>x\<rfloor>; d = x - of_int f
      in if d < 1 / 2 then f
         else if 1 / 2 < d then f + 1
         else if even f then f else f + 1)"

definition round2 :: "rat \<Rightarrow> rat" where
  "round2 x = of_int (round_half_even (x * 100)) / 100"

section \<open>Data model (contract_parser.py)\<close>

datatype TipoTasa = FIJA | VARIABLE

datatype FrecuenciaPago = MENSUAL | TRIMESTRAL | SEMESTRAL | ANUAL | BULLET

record Comision =
  tipo :: string
  valor :: rat
  es_porcentaje :: bool

record Garantia =
  tipo_garantia :: string
  descripcion_garantia :: string

record ClausulaPrepago =
  permitido :: bool
  penalizacion :: rat
  periodo_penalizacion_meses :: int

text \<open>
  The records leave out the free-text fields of the source (\<^verbatim>\<open>descripcion\<close>,
  \<^verbatim>\<open>base\<close>) where no function of this development reads them.
  \<^verbatim>\<open>ContratoParseado\<close> has the fields the scorer and the calculator read. The field
  \<^verbatim>\<open>floor\<close> is \<open>floor_tasa\<close> here and \<^verbatim>\<open>cap\<close> is \<open>cap_tasa\<close>; an
  \<^verbatim>\<open>Optional\<close> field is an \<open>option\<close>.
\<close>

record ContratoParseado =
  prestamista :: string
  prestatario :: string
  monto_principal :: rat
  tasa_nominal :: rat
  tipo_tasa :: TipoTasa
  plazo_meses :: int
  frecuencia_pago :: FrecuenciaPago
  indice_referencia :: "string option"
  cap_tasa :: "rat option"
  floor_tasa :: "rat option"
  periodo_gracia_meses :: int
  es_bullet :: bool
  garantias :: "Garantia list"
  comisiones :: "Comision list"
  prepago :: "ClausulaPrepago option"
  advertencias :: "string list"

text \<open>The contract that \<^verbatim>\<open>ContratoParseado()\<close> builds: every field at its default.\<close>

definition contrato_vacio :: ContratoParseado where
  "contrato_vacio =
     \<lparr>prestamista = [], prestatario = [], monto_principal = 0, tasa_nominal = 0,
      tipo_tasa = FIJA, plazo_meses = 0, frecuencia_pago = MENSUAL,
      indice_referencia = None, cap_tasa = None, floor_tasa = None,
      periodo_gracia_meses = 0, es_bullet = False, garantias = [], comisiones = [],
      prepago = None, advertencias = []\<rparr>"

section \<open>Amortization engine (financial_calculator.py)\<close>

text \<open>
  A row of the schedule. \<open>fecha\<close> is the day number of the row's date: the source
  renders \<^verbatim>\<open>fecha_base + timedelta(days=30 * i)\<close> as year-month-day text, which is
  determined by that day number and determines it. The last day that a Python date can
  hold (in the year 9999) is outside the model.
\<close>

record FilaAmortizacion =
  periodo :: int
  fecha :: int
  cuota :: rat
  capital :: rat
  interes :: rat
  saldo :: rat
  comision_mantenimiento :: rat

text \<open>
  The loop over \<^verbatim>\<open>contrato.comisiones\<close> that every policy runs: the last
  maintenance fee of the list sets the monthly rate, 0 when there is none.
\<close>

definition comision_mant :: "Comision list \<Rightarrow> rat" where
  "comision_mant coms =
     foldl (\<lambda>acc com. if tipo com = ''mantenimiento'' then valor com / 100 else acc) 0 coms"

text \<open>
  The fixed payment, as \<^verbatim>\<open>_amortizacion_francesa\<close> and the annuity branch of
  \<^verbatim>\<open>_amortizacion_con_gracia\<close> both compute it. \<open>powi\<close> is Python's
  \<^verbatim>\<open>**\<close> with an int exponent of either sign.
\<close>

definition cuota_fija :: "rat \<Rightarrow> rat \<Rightarrow> int \<Rightarrow> py_error + rat" where
  "cuota_fija monto tasa_mensual n =
     (if tasa_mensual > 0 then
        (if (1 + tasa_mensual) powi n - 1 = 0 then Inl ZeroDivisionError
         else Inr (monto * (tasa_mensual * (1 + tasa_mensual) powi n)
                     / ((1 + tasa_mensual) powi n - 1)))
      else if n = 0 then Inl ZeroDivisionError
      else Inr (monto / of_int n))"

text \<open>
  The body of the annuity loop, one row per period of the list, the balance threaded
  through. \<open>fecha_base\<close> is the reading of the clock
  (\<^verbatim>\<open>datetime.now()\<close>) that the source takes before the loop.
\<close>

fun filas_francesa ::
  "int \<Rightarrow> rat \<Rightarrow> rat \<Rightarrow> rat \<Rightarrow> rat \<Rightarrow> int list \<Rightarrow> FilaAmortizacion list" where
  "filas_francesa fecha_base tasa_mensual cuota_f com_mant saldo_act [] = []"
| "filas_francesa fecha_base tasa_mensual cuota_f com_mant saldo_act (i # resto) =
     (let inte = saldo_act * tasa_mensual;
          capi = cuota_f - inte;
          mantenimiento = saldo_act * com_mant;
          saldo_nuevo = max 0 (saldo_act - capi)
      in \<lparr>periodo = i, fecha = fecha_base + 30 * i, cuota = round2 cuota_f,
          capital = round2 capi, interes = round2 inte, saldo = round2 saldo_nuevo,
          comision_mantenimiento = round2 mantenimiento\<rparr>
         # filas_francesa fecha_base tasa_mensual cuota_f com_mant saldo_nuevo resto)"

definition amortizacion_francesa :: "int \<Rightarrow> ContratoParseado \<Rightarrow> py_error + FilaAmortizacion list" where
  "amortizacion_francesa fecha_base contrato =
     (let monto = monto_principal contrato;
          tasa_mensual = tasa_nominal contrato / 100 / 12;
          n = plazo_meses contrato
      in case cuota_fija monto tasa_mensual n of
           Inl e \<Rightarrow> Inl e
         | Inr cuota_f \<Rightarrow>
             Inr (filas_francesa fecha_base tasa_mensual cuota_f
                    (comision_mant (comisiones contrato)) monto [1..n]))"

text \<open>The bullet loop: interest only, the whole balance repaid in period \<open>n\<close>.\<close>

fun filas_bullet ::
  "int \<Rightarrow> rat \<Rightarrow> rat \<Rightarrow> int \<Rightarrow> rat \<Rightarrow> int list \<Rightarrow> FilaAmortizacion list" where
  "filas_bullet fecha_base tasa_mensual com_mant n saldo_act [] = []"
| "filas_bullet fecha_base tasa_mensual com_mant n saldo_act (i # resto) =
     (let inte = saldo_act * tasa_mensual;
          mantenimiento = saldo_act * com_mant;
          capi = (if i = n then saldo_act else 0);
          cuota_i = (if i = n then capi + inte else inte);
          saldo_nuevo = (if i = n then 0 else saldo_act)
      in \<lparr>periodo = i, fecha = fecha_base + 30 * i, cuota = round2 cuota_i,
          capital = round2 capi, interes = round2 inte, saldo = round2 saldo_nuevo,
          comision_mantenimiento = round2 mantenimiento\<rparr>
         # filas_bullet fecha_base tasa_mensual com_mant n saldo_nuevo resto)"

definition amortizacion_bullet :: "int \<Rightarrow> ContratoParseado \<Rightarrow> py_error + FilaAmortizacion list" where
  "amortizacion_bullet fecha_base contrato =
     (let monto = monto_principal contrato;
          tasa_mensual = tasa_nominal contrato / 100 / 12;
          n = plazo_meses contrato
      in Inr (filas_bullet fecha_base tasa_mensual (comision_mant (comisiones contrato))
                n monto [1..n]))"

text \<open>The grace rows: interest only, the balance unchanged, \<open>capital\<close> the literal 0.\<close>

definition filas_gracia ::
  "int \<Rightarrow> rat \<Rightarrow> rat \<Rightarrow> rat \<Rightarrow> int list \<Rightarrow> FilaAmortizacion list" where
  "filas_gracia fecha_base tasa_mensual com_mant saldo_act periodos =
     map (\<lambda>i. \<lparr>periodo = i, fecha = fecha_base + 30 * i,
                cuota = round2 (saldo_act * tasa_mensual), capital = 0,
                interes = round2 (saldo_act * tasa_mensual), saldo = round2 saldo_act,
                comision_mantenimiento = round2 (saldo_act * com_mant)\<rparr>) periodos"

definition amortizacion_con_gracia :: "int \<Rightarrow> ContratoParseado \<Rightarrow> py_error + FilaAmortizacion list" where
  "amortizacion_con_gracia fecha_base contrato =
     (let monto = monto_principal contrato;
          tasa_mensual = tasa_nominal contrato / 100 / 12;
          n_total = plazo_meses contrato;
          n_gracia = periodo_gracia_meses contrato;
          n_amortizacion = n_total - n_gracia;
          com_mant = comision_mant (comisiones contrato);
          tabla = filas_gracia fecha_base tasa_mensual com_mant monto [1..n_gracia]
      in if es_bullet contrato then
           Inr (tabla @ filas_bullet fecha_base tasa_mensual com_mant n_total monto
                          [n_gracia + 1..n_total])
         else
           case cuota_fija monto tasa_mensual n_amortizacion of
             Inl e \<Rightarrow> Inl e
           | Inr cuota_f \<Rightarrow>
               Inr (tabla @ filas_francesa fecha_base tasa_mensual cuota_f com_mant monto
                              [n_gracia + 1..n_total]))"

definition generar_tabla_amortizacion :: "int \<Rightarrow> ContratoParseado \<Rightarrow> py_error + FilaAmortizacion list" where
  "generar_tabla_amortizacion fecha_base contrato =
     (if es_bullet contrato then amortizacion_bullet fecha_base contrato
      else if periodo_gracia_meses contrato > 0 then amortizacion_con_gracia fecha_base contrato
      else amortizacion_francesa fecha_base contrato)"

section \<open>Rate and cost calculator\<close>

definition calcular_total_comisiones :: "ContratoParseado \<Rightarrow> FilaAmortizacion list \<Rightarrow> rat" where
  "calcular_total_comisiones contrato tabla =
     round2 (foldl (\<lambda>total com.
        if tipo com = ''apertura'' then
          (if es_porcentaje com then total + monto_principal contrato * valor com / 100
           else total + valor com)
        else if tipo com = ''seguro'' then total + valor com
        else if tipo com = ''mantenimiento'' then
          total + sum_list (map comision_mantenimiento tabla)
        else total) 0 (comisiones contrato))"

text \<open>The table of \<^verbatim>\<open>_calcular_tea\<close>: periods per year of a payment frequency.\<close>

fun periodos_por_ano :: "FrecuenciaPago \<Rightarrow> nat" where
  "periodos_por_ano MENSUAL = 12"
| "periodos_por_ano TRIMESTRAL = 4"
| "periodos_por_ano SEMESTRAL = 2"
| "periodos_por_ano ANUAL = 1"
| "periodos_por_ano BULLET = 1"

definition calcular_tea :: "ContratoParseado \<Rightarrow> rat" where
  "calcular_tea contrato =
     (let tasa = tasa_nominal contrato / 100;
          n = periodos_por_ano (frecuencia_pago contrato)
      in round2 (((1 + tasa / of_nat n) ^ n - 1) * 100))"

text \<open>
  \<^verbatim>\<open>_calcular_cat\<close>. The guard comes before the two divisions, so the function
  raises nothing.
\<close>

definition calcular_cat :: "ContratoParseado \<Rightarrow> rat \<Rightarrow> rat \<Rightarrow> rat" where
  "calcular_cat contrato total_int total_com =
     (let monto = monto_principal contrato;
          plazo_anos = of_int (plazo_meses contrato) / 12
      in if plazo_anos = 0 \<or> monto = 0 then 0
         else round2 (((monto + total_int + total_com) / monto - 1) / plazo_anos * 100))"

text \<open>The upfront fees that \<^verbatim>\<open>_calcular_vpn\<close> and \<^verbatim>\<open>_calcular_tir\<close> both add up.\<close>

definition comision_inicial :: "ContratoParseado \<Rightarrow> rat" where
  "comision_inicial contrato =
     foldl (\<lambda>acc com.
        if tipo com = ''apertura'' \<or> tipo com = ''seguro'' then
          (if es_porcentaje com then acc + monto_principal contrato * valor com / 100
           else acc + valor com)
        else acc) 0 (comisiones contrato)"

text \<open>
  The discounting loop of \<^verbatim>\<open>_calcular_vpn\<close> over \<^verbatim>\<open>enumerate(flujos)\<close>; the
  division raises when the discount factor is 0.
\<close>

fun descontar :: "rat \<Rightarrow> nat \<Rightarrow> rat \<Rightarrow> rat list \<Rightarrow> py_error + rat" where
  "descontar tasa_descuento i vpn [] = Inr vpn"
| "descontar tasa_descuento i vpn (flujo # resto) =
     (if (1 + tasa_descuento) ^ i = 0 then Inl ZeroDivisionError
      else descontar tasa_descuento (Suc i) (vpn + flujo / (1 + tasa_descuento) ^ i) resto)"

definition calcular_vpn :: "ContratoParseado \<Rightarrow> FilaAmortizacion list \<Rightarrow> py_error + rat" where
  "calcular_vpn contrato tabla =
     (let tasa_descuento = tasa_nominal contrato / 100 / 12;
          flujos = (- monto_principal contrato - comision_inicial contrato)
                   # map (\<lambda>fila. - (cuota fila + comision_mantenimiento fila)) tabla
      in map_sum id round2 (descontar tasa_descuento 0 0 flujos))"

text \<open>
  \<^verbatim>\<open>_calcular_tir\<close>. The root finder \<^verbatim>\<open>np.irr\<close> is a library function and a
  parameter here: \<open>None\<close> when it raises, which the source catches and answers with
  the effective annual rate.
\<close>

definition calcular_tir ::
  "(rat list \<Rightarrow> rat option) \<Rightarrow> ContratoParseado \<Rightarrow> FilaAmortizacion list \<Rightarrow> rat" where
  "calcular_tir irr contrato tabla =
     (let flujos = (- (monto_principal contrato - comision_inicial contrato))
                   # map (\<lambda>fila. cuota fila + comision_mantenimiento fila) tabla
      in case irr flujos of
           Some tir_mensual \<Rightarrow> round2 (((1 + tir_mensual) ^ 12 - 1) * 100)
         | None \<Rightarrow> calcular_tea contrato)"

section \<open>Market benchmark comparator\<close>

record Comparacion =
  diferencia :: rat
  percentil :: int
  evaluacion :: string

text \<open>
  The market table is loaded from a data file and is a parameter: \<open>None\<close> is the empty
  table, and a lookup that answers \<open>None\<close> is the \<^verbatim>\<open>KeyError\<close> that the source
  catches. A band is (average, maximum, minimum). Accented letters of the labels are
  their UTF-8 bytes.
\<close>

type_synonym market_rates = "(string \<Rightarrow> string \<Rightarrow> (rat \<times> rat \<times> rat) option) option"

definition comparar_con_mercado :: "market_rates \<Rightarrow> ContratoParseado \<Rightarrow> rat \<Rightarrow> Comparacion" where
  "comparar_con_mercado rates contrato tea =
     (case rates of
        None \<Rightarrow> \<lparr>diferencia = 0, percentil = 50,
                  evaluacion = ''Sin datos de mercado disponibles''\<rparr>
      | Some tasas_referencia \<Rightarrow>
          (let monto = monto_principal contrato;
               tipo_empresa = (if monto < 500000 then ''pyme''
                               else if monto < 5000000 then ''mediana'' else ''grande'');
               plazo = plazo_meses contrato;
               tipo_plazo = (if plazo \<le> 12 then ''corto_plazo''
                             else if plazo \<le> 36 then ''mediano_plazo'' else ''largo_plazo'')
           in case tasas_referencia tipo_empresa tipo_plazo of
                None \<Rightarrow> \<lparr>diferencia = 0, percentil = 50,
                          evaluacion = ''Sin datos de mercado para este perfil''\<rparr>
              | Some (tasa_promedio, tasa_max, tasa_min) \<Rightarrow>
                  (let dif = tea - tasa_promedio;
                       perc = (if tea \<le> tasa_min then 10
                               else if tea \<ge> tasa_max then 90
                               else \<lfloor>10 + (tea - tasa_min) / (tasa_max - tasa_min) * 80\<rfloor>);
                       eval = (if dif < -1 then ''Muy competitivo - Condiciones favorables''
                               else if dif < 1 / 2 then
                                 ''Competitivo - En l'' @ [CHR 0xC3, CHR 0xAD]
                                   @ ''nea con el mercado''
                               else if dif < 2 then
                                 ''Ligeramente elevado - Considerar negociar''
                               else ''Elevado - Revisar alternativas de financiamiento'')
                   in \<lparr>diferencia = round2 dif, percentil = perc, evaluacion = eval\<rparr>)))"

section \<open>Sensitivity analyzer\<close>

record Escenario =
  cambio_tasa :: string
  tasa_resultante :: rat
  cuota_promedio :: rat
  total_intereses_esc :: rat
  impacto_vs_base :: rat

record Sensibilidad =
  escenarios_res :: "Escenario list"
  tiene_cap :: bool
  tiene_floor :: bool
  cap_res :: "rat option"
  floor_res :: "rat option"
  indice_res :: "string option"

text \<open>
  The scenario list \<^verbatim>\<open>[-1.0, -0.5, 0, 0.5, 1.0, 2.0]\<close>, each shift with the text
  that Python's formatting gives it in the label.
\<close>

definition escenarios :: "(rat \<times> string) list" where
  "escenarios = [(-1, ''-1.0''), (-1 / 2, ''-0.5''), (0, ''0''),
                 (1 / 2, ''0.5''), (1, ''1.0''), (2, ''2.0'')]"

text \<open>
  The shifted rate. \<^verbatim>\<open>if contrato.cap:\<close> tests the truth value of an optional float:
  false for \<^verbatim>\<open>None\<close> and for 0.0.
\<close>

definition nueva_tasa :: "ContratoParseado \<Rightarrow> rat \<Rightarrow> rat" where
  "nueva_tasa contrato cambio =
     (let t0 = tasa_nominal contrato + cambio;
          t1 = (case cap_tasa contrato of
                  Some c \<Rightarrow> if c \<noteq> 0 then min t0 c else t0 | None \<Rightarrow> t0);
          t2 = (case floor_tasa contrato of
                  Some f \<Rightarrow> if f \<noteq> 0 then max t1 f else t1 | None \<Rightarrow> t1)
      in t2)"

definition contrato_modificado :: "ContratoParseado \<Rightarrow> rat \<Rightarrow> ContratoParseado" where
  "contrato_modificado contrato tasa =
     contrato_vacio\<lparr>monto_principal := monto_principal contrato,
                     tasa_nominal := tasa,
                     plazo_meses := plazo_meses contrato,
                     frecuencia_pago := frecuencia_pago contrato,
                     periodo_gracia_meses := periodo_gracia_meses contrato,
                     es_bullet := es_bullet contrato,
                     comisiones := comisiones contrato\<rparr>"

definition escenario :: "int \<Rightarrow> ContratoParseado \<Rightarrow> rat \<times> string \<Rightarrow> py_error + Escenario" where
  "escenario fecha_base contrato cs =
     (let cambio = fst cs;
          tasa = nueva_tasa contrato cambio
      in case generar_tabla_amortizacion fecha_base (contrato_modificado contrato tasa) of
           Inl e \<Rightarrow> Inl e
         | Inr tabla \<Rightarrow>
            (case generar_tabla_amortizacion fecha_base contrato of
               Inl e \<Rightarrow> Inl e
             | Inr tabla_base \<Rightarrow>
                (let total_int = sum_list (map interes tabla);
                     promedio = (if tabla \<noteq> [] then
                                   sum_list (map cuota tabla) / of_nat (length tabla)
                                 else 0)
                 in Inr \<lparr>cambio_tasa = (if cambio \<ge> 0 then ''+'' else []) @ snd cs @ ''%'',
                         tasa_resultante = round2 tasa,
                         cuota_promedio = round2 promedio,
                         total_intereses_esc = round2 total_int,
                         impacto_vs_base =
                           round2 (total_int - sum_list (map interes tabla_base))\<rparr>)))"

text \<open>A \<^verbatim>\<open>for\<close> loop that appends one result per element and stops at the first raise.\<close>

fun para_cada :: "('a \<Rightarrow> py_error + 'b) \<Rightarrow> 'a list \<Rightarrow> py_error + 'b list" where
  "para_cada f [] = Inr []"
| "para_cada f (x # xs) =
     (case f x of
        Inl e \<Rightarrow> Inl e
      | Inr y \<Rightarrow> (case para_cada f xs of Inl e \<Rightarrow> Inl e | Inr ys \<Rightarrow> Inr (y # ys)))"

definition analisis_sensibilidad :: "int \<Rightarrow> ContratoParseado \<Rightarrow> py_error + Sensibilidad option" where
  "analisis_sensibilidad fecha_base contrato =
     (if tipo_tasa contrato \<noteq> VARIABLE then Inr None
      else case para_cada (escenario fecha_base contrato) escenarios of
             Inl e \<Rightarrow> Inl e
           | Inr resultados \<Rightarrow>
               Inr (Some \<lparr>escenarios_res = resultados,
                          tiene_cap = (cap_tasa contrato \<noteq> None),
                          tiene_floor = (floor_tasa contrato \<noteq> None),
                          cap_res = cap_tasa contrato,
                          floor_res = floor_tasa contrato,
                          indice_res = indice_referencia contrato\<rparr>))"

section \<open>Financial result\<close>

record ResultadoCalculo =
  tasa_efectiva_anual :: rat
  costo_anual_total :: rat
  total_intereses :: rat
  total_comisiones :: rat
  costo_total_financiamiento :: rat
  cuota_mensual :: rat
  tabla_amortizacion :: "FilaAmortizacion list"
  valor_presente_neto :: rat
  tir :: rat
  diferencia_vs_mercado :: rat
  percentil_mercado :: int
  evaluacion_mercado :: string
  sensibilidad :: "Sensibilidad option"

text \<open>
  \<^verbatim>\<open>calcular\<close>, in the order of the source, so that the first raise is the one that
  leaves the function. Every schedule generation of the source reads the clock anew;
  the model passes one reading on, since only the rows of \<open>tabla\<close> carry dates into
  the result.
\<close>

definition calcular ::
  "(rat list \<Rightarrow> rat option) \<Rightarrow> market_rates \<Rightarrow> int \<Rightarrow> ContratoParseado
     \<Rightarrow> py_error + ResultadoCalculo" where
  "calcular irr rates fecha_base contrato =
     (case generar_tabla_amortizacion fecha_base contrato of
        Inl e \<Rightarrow> Inl e
      | Inr tabla \<Rightarrow>
         (let total_int = sum_list (map interes tabla);
              total_com = calcular_total_comisiones contrato tabla;
              tea = calcular_tea contrato;
              cat = calcular_cat contrato total_int total_com;
              cuota_1 = (case tabla of [] \<Rightarrow> 0 | fila # _ \<Rightarrow> cuota fila);
              costo_total = monto_principal contrato + total_int + total_com
          in case calcular_vpn contrato tabla of
               Inl e \<Rightarrow> Inl e
             | Inr vpn \<Rightarrow>
                (let tir_v = calcular_tir irr contrato tabla;
                     comparacion = comparar_con_mercado rates contrato tea
                 in case (if tipo_tasa contrato = VARIABLE
                          then analisis_sensibilidad fecha_base contrato else Inr None) of
                      Inl e \<Rightarrow> Inl e
                    | Inr sens \<Rightarrow>
                        Inr \<lparr>tasa_efectiva_anual = tea, costo_anual_total = cat,
                             total_intereses = total_int, total_comisiones = total_com,
                             costo_total_financiamiento = costo_total,
                             cuota_mensual = cuota_1, tabla_amortizacion = tabla,
                             valor_presente_neto = vpn, tir = tir_v,
                             diferencia_vs_mercado = diferencia comparacion,
                             percentil_mercado = percentil comparacion,
                             evaluacion_mercado = evaluacion comparacion,
                             sensibilidad = sens\<rparr>)))"

section \<open>Prepayment simulator\<close>

text \<open>Python's \<^verbatim>\<open>xs[k]\<close> and \<^verbatim>\<open>xs[:k]\<close>: a negative index counts from the end.\<close>

definition py_index :: "'a list \<Rightarrow> int \<Rightarrow> py_error + 'a" where
  "py_index xs k =
     (let n = int (length xs)
      in if 0 \<le> k \<and> k < n then Inr (xs ! nat k)
         else if - n \<le> k \<and> k < 0 then Inr (xs ! nat (n + k))
         else Inl IndexError)"

definition py_slice_hasta :: "'a list \<Rightarrow> int \<Rightarrow> 'a list" where
  "py_slice_hasta xs k =
     (if 0 \<le> k then take (nat k) xs else take (nat (int (length xs) + k)) xs)"

text \<open>
  The loop that rebuilds the payment after the prepayment. The source keeps its rows in
  a local list \<^verbatim>\<open>tabla_prepago\<close> that the returned dictionary does not contain;
  \<open>i\<close> is the index of \<^verbatim>\<open>enumerate\<close> and \<open>n\<close> the length of the whole schedule.
\<close>

fun filas_prepago ::
  "rat \<Rightarrow> int \<Rightarrow> rat \<Rightarrow> int \<Rightarrow> int \<Rightarrow> rat \<Rightarrow> FilaAmortizacion list \<Rightarrow> (int \<times> rat \<times> rat) list" where
  "filas_prepago tasa_mensual mes_prepago monto_prepago n i saldo_act [] = []"
| "filas_prepago tasa_mensual mes_prepago monto_prepago n i saldo_act (fila # resto) =
     (let saldo_1 = (if i + 1 = mes_prepago then max 0 (saldo fila - monto_prepago)
                     else saldo_act);
          periodos_restantes = n - i - 1;
          nueva_cuota =
            (if periodos_restantes > 0 \<and> tasa_mensual > 0 then
               saldo_1 * (tasa_mensual * (1 + tasa_mensual) powi periodos_restantes)
                 / ((1 + tasa_mensual) powi periodos_restantes - 1)
             else saldo_1);
          siguientes = filas_prepago tasa_mensual mes_prepago monto_prepago n (i + 1) saldo_1 resto
      in if i + 1 \<ge> mes_prepago \<and> saldo_1 > 0
         then (i + 1, round2 saldo_1, round2 nueva_cuota) # siguientes
         else siguientes)"

record ResultadoPrepago =
  ahorro_intereses :: rat
  penalizacion_res :: rat
  beneficio_neto :: rat
  recomendacion :: string

definition calcular_escenario_prepago ::
  "int \<Rightarrow> ContratoParseado \<Rightarrow> int \<Rightarrow> rat \<Rightarrow> py_error + ResultadoPrepago" where
  "calcular_escenario_prepago fecha_base contrato mes_prepago monto_prepago =
     (case generar_tabla_amortizacion fecha_base contrato of
        Inl e \<Rightarrow> Inl e
      | Inr tabla_original \<Rightarrow>
         (let total_original = sum_list (map interes tabla_original);
              tasa_mensual = tasa_nominal contrato / 100 / 12;
              tabla_prepago = filas_prepago tasa_mensual mes_prepago monto_prepago
                                (int (length tabla_original)) 0 (monto_principal contrato)
                                tabla_original;
              pen = (case prepago contrato of
                       None \<Rightarrow> 0
                     | Some cl \<Rightarrow>
                         if mes_prepago \<le> periodo_penalizacion_meses cl
                         then monto_prepago * penalizacion cl / 100 else 0);
              total_con_prepago =
                sum_list (map interes (py_slice_hasta tabla_original (mes_prepago - 1)))
          in case (if mes_prepago \<le> int (length tabla_original)
                   then map_sum id (\<lambda>fila. saldo fila - monto_prepago)
                          (py_index tabla_original (mes_prepago - 1))
                   else Inr 0) of
               Inl e \<Rightarrow> Inl e
             | Inr saldo_reducido \<Rightarrow>
                (let periodos_restantes = plazo_meses contrato - mes_prepago;
                     intereses_restantes =
                       saldo_reducido * tasa_mensual * of_int periodos_restantes * (1 / 2);
                     ahorro = total_original - total_con_prepago - intereses_restantes
                 in Inr \<lparr>ahorro_intereses = round2 ahorro,
                         penalizacion_res = round2 pen,
                         beneficio_neto = round2 (ahorro - pen),
                         recomendacion = (if ahorro > pen then ''Prepago recomendado''
                                          else ''Evaluar conveniencia'')\<rparr>)))"

section \<open>Confidence scorer (contract_parser.py)\<close>

text \<open>
  \<^verbatim>\<open>_calcular_confianza\<close> returns the score and appends to the warnings of the
  contract it is given: the model returns the score with the new list of warnings. Each
  \<^verbatim>\<open>if\<close> statement of the source is one \<open>penalizar\<close> step on the pair of score and
  warnings: it takes the points off and appends the warnings that the statement
  appends, which are none for the two names. The accented letters of the warnings are
  their UTF-8 bytes.
\<close>

definition penalizar ::
  "bool \<Rightarrow> rat \<Rightarrow> string list \<Rightarrow> rat \<times> string list \<Rightarrow> rat \<times> string list" where
  "penalizar falta puntos avisos st =
     (if falta then (fst st - puntos, snd st @ avisos) else st)"

definition calcular_confianza :: "ContratoParseado \<Rightarrow> rat \<times> string list" where
  "calcular_confianza contrato =
     (let st = (100, advertencias contrato);
          st = penalizar (monto_principal contrato = 0) 20
                 [''No se pudo extraer el monto principal''] st;
          st = penalizar (tasa_nominal contrato = 0 \<and> tipo_tasa contrato = FIJA) 15
                 [''No se pudo extraer la tasa de inter'' @ [CHR 0xC3, CHR 0xA9] @ ''s''] st;
          st = penalizar (plazo_meses contrato = 0) 15
                 [''No se pudo extraer el plazo''] st;
          st = penalizar (garantias contrato = []) 5
                 [''No se identificaron garant'' @ [CHR 0xC3, CHR 0xAD] @ ''as expl''
                    @ [CHR 0xC3, CHR 0xAD] @ ''citas''] st;
          st = penalizar (comisiones contrato = []) 5
                 [''No se identificaron comisiones''] st;
          st = penalizar (prestamista contrato = []) 5 [] st;
          st = penalizar (prestatario contrato = []) 5 [] st
      in (max 0 (fst st), snd st))"

section \<open>The contracts of the examples\<close>

text \<open>Principal 100000, 12 percent nominal, 12 monthly periods, no fees.\<close>

definition contrato_ejemplo :: ContratoParseado where
  "contrato_ejemplo =
     contrato_vacio\<lparr>monto_principal := 100000, tasa_nominal := 12, plazo_meses := 12\<rparr>"

text \<open>The same loan with quarterly payments.\<close>

definition contrato_trimestral :: ContratoParseado where
  "contrato_trimestral = contrato_ejemplo\<lparr>frecuencia_pago := TRIMESTRAL\<rparr>"

text \<open>Principal 1000, 19 percent nominal, 2 monthly periods.\<close>

definition contrato_corto :: ContratoParseado where
  "contrato_corto =
     contrato_vacio\<lparr>monto_principal := 1000, tasa_nominal := 19, plazo_meses := 2\<rparr>"

text \<open>A variable-rate loan at 5 percent with cap 7 and floor 3.\<close>

definition contrato_variable :: ContratoParseado where
  "contrato_variable =
     contrato_vacio\<lparr>monto_principal := 1000, tasa_nominal := 5, tipo_tasa := VARIABLE,
                     plazo_meses := 2, cap_tasa := Some 7, floor_tasa := Some 3\<rparr>"

section \<open>Notions of the statements\<close>

text \<open>
  A payment \<open>c\<close> reaches a balance \<open>s\<close> in \<open>m\<close> periods at the growth factor \<open>q\<close>:
  the balance compounded over the periods is at most the compounded payments.
\<close>

definition alcanza :: "rat \<Rightarrow> rat \<Rightarrow> rat \<Rightarrow> nat \<Rightarrow> bool" where
  "alcanza q c s m \<longleftrightarrow> s * q ^ m \<le> c * (\<Sum>j<m. q ^ j)"

text \<open>A schedule with every date moved by \<open>d\<close> days and nothing else changed.\<close>

definition redatar :: "int \<Rightarrow> FilaAmortizacion list \<Rightarrow> FilaAmortizacion list" where
  "redatar d tabla = map (\<lambda>fila. fila\<lparr>fecha := fecha fila + d\<rparr>) tabla"

text \<open>
  The fixed payment in the words of the specification: the periodic rate is the nominal
  rate over 100 and over the periods per year of the payment frequency.
\<close>

definition cuota_segun_frecuencia :: "ContratoParseado \<Rightarrow> py_error + rat" where
  "cuota_segun_frecuencia contrato =
     cuota_fija (monto_principal contrato)
       (tasa_nominal contrato / 100 / of_nat (periodos_por_ano (frecuencia_pago contrato)))
       (plazo_meses contrato)"

text \<open>
  The scenario rate in the words of the specification: the shifted rate, clamped by the
  cap when the contract has one and by the floor when it has one.
\<close>

definition tasa_clamp :: "ContratoParseado \<Rightarrow> rat \<Rightarrow> rat" where
  "tasa_clamp contrato cambio =
     (let t0 = tasa_nominal contrato + cambio;
          t1 = (case cap_tasa contrato of Some c \<Rightarrow> min t0 c | None \<Rightarrow> t0)
      in case floor_tasa contrato of Some f \<Rightarrow> max t1 f | None \<Rightarrow> t1)"

definition tasas_clamp :: "ContratoParseado \<Rightarrow> rat list" where
  "tasas_clamp contrato = map (\<lambda>cs. tasa_clamp contrato (fst cs)) escenarios"

text \<open>The rates that the sensitivity analysis reports, scenario by scenario.\<close>

definition tasas_reportadas :: "int \<Rightarrow> ContratoParseado \<Rightarrow> py_error + rat list option" where
  "tasas_reportadas fecha_base contrato =
     map_sum id (map_option (\<lambda>s. map tasa_resultante (escenarios_res s)))
       (analisis_sensibilidad fecha_base contrato)"

text \<open>
  The deduction table of the specification, and the number of its entries that apply to
  a contract.
\<close>

definition deducciones :: "ContratoParseado \<Rightarrow> rat" where
  "deducciones contrato =
     (if monto_principal contrato = 0 then 20 else 0)
     + (if tasa_nominal contrato = 0 \<and> tipo_tasa contrato = FIJA then 15 else 0)
     + (if plazo_meses contrato = 0 then 15 else 0)
     + (if garantias contrato = [] then 5 else 0)
     + (if comisiones contrato = [] then 5 else 0)
     + (if prestamista contrato = [] then 5 else 0)
     + (if prestatario contrato = [] then 5 else 0)"

definition num_deducciones :: "ContratoParseado \<Rightarrow> nat" where
  "num_deducciones contrato =
     (if monto_principal contrato = 0 then 1 else 0)
     + (if tasa_nominal contrato = 0 \<and> tipo_tasa contrato = FIJA then 1 else 0)
     + (if plazo_meses contrato = 0 then 1 else 0)
     + (if garantias contrato = [] then 1 else 0)
     + (if comisiones contrato = [] then 1 else 0)
     + (if prestamista contrato = [] then 1 else 0)
     + (if prestatario contrato = [] then 1 else 0)"

text \<open>
  A row splits its payment: payment, principal part and interest part are the
  roundings of three amounts of which the first is the sum of the other two.
\<close>

definition desglose :: "FilaAmortizacion \<Rightarrow> bool" where
  "desglose f \<longleftrightarrow>
     (\<exists>k i. capital f = round2 k \<and> interes f = round2 i \<and> cuota f = round2 (k + i))"

section \<open>Rounding\<close>

lemma round_half_even_of_int: "round_half_even (of_int k) = k"
  by (simp add: round_half_even_def)

lemma round_half_even_bounds:
  "\<bar>of_int (round_half_even x) - x\<bar> \<le> 1 / 2"
proof -
  have "of_int \<lfloor>x\<rfloor> \<le> x" "x < of_int \<lfloor>x\<rfloor> + 1" by linarith+
  then show ?thesis
    by (auto simp: round_half_even_def Let_def)
qed

lemma round_half_even_mono:
  assumes "x \<le> y"
  shows "round_half_even x \<le> round_half_even y"
proof (cases "\<lfloor>x\<rfloor> = \<lfloor>y\<rfloor>")
  case True
  with assms show ?thesis
    by (auto simp: round_half_even_def Let_def)
next
  case False
  with assms have lt: "\<lfloor>x\<rfloor> + 1 \<le> \<lfloor>y\<rfloor>"
    using floor_mono [OF assms] by linarith
  have "round_half_even x \<le> \<lfloor>x\<rfloor> + 1"
    by (simp add: round_half_even_def Let_def)
  moreover have "\<lfloor>y\<rfloor> \<le> round_half_even y"
    by (simp add: round_half_even_def Let_def)
  ultimately show ?thesis using lt by linarith
qed

lemma round2_0: "round2 0 = 0"
  by (simp add: round2_def round_half_even_def)

lemma round2_mono: "x \<le> y \<Longrightarrow> round2 x \<le> round2 y"
  by (simp add: round2_def round_half_even_mono divide_right_mono)

lemma round2_nonneg: "0 \<le> x \<Longrightarrow> 0 \<le> round2 x"
  using round2_mono [of 0 x] by (simp add: round2_0)

lemma round2_error: "\<bar>round2 x - x\<bar> \<le> 1 / 200"
proof -
  have "\<bar>of_int (round_half_even (x * 100)) - x * 100\<bar> \<le> 1 / 2"
    by (rule round_half_even_bounds)
  then show ?thesis
    by (simp add: round2_def abs_le_iff field_simps)
qed


section \<open>The balance along a schedule\<close>

lemma suma_geometrica: "(q - 1) * (\<Sum>j<m. q ^ j) = q ^ m - (1::rat)"
  by (induction m) (simp_all add: algebra_simps)

lemma alcanza_interes:
  assumes "alcanza (1 + i) c s (Suc m)" "0 \<le> i" "0 \<le> s"
  shows "s * i \<le> c"
proof -
  define S where "S = (\<Sum>j<Suc m. (1 + i) ^ j)"
  have pos: "0 < S"
    unfolding S_def using assms(2) by (intro sum_pos) auto
  have geo: "i * S = (1 + i) ^ Suc m - 1"
    unfolding S_def using suma_geometrica [of "1 + i" "Suc m"] by simp
  have "s * i * S = s * (i * S)" by simp
  also have "\<dots> = s * (1 + i) ^ Suc m - s"
    by (simp only: geo right_diff_distrib mult_1_right)
  also have "\<dots> \<le> s * (1 + i) ^ Suc m"
    using assms(3) by simp
  also have "\<dots> \<le> c * S"
    using assms(1) by (simp only: alcanza_def S_def)
  finally have "s * i * S \<le> c * S" .
  then show ?thesis
    using pos by simp
qed

lemma alcanza_paso:
  assumes "alcanza (1 + i) c s (Suc m)" "0 \<le> i" "0 \<le> s"
  shows "alcanza (1 + i) c (max 0 (s - (c - s * i))) m"
proof -
  have c0: "0 \<le> c"
    using alcanza_interes [OF assms] assms(2,3) mult_nonneg_nonneg [of s i] by linarith
  have S0: "0 \<le> (\<Sum>j<m. (1 + i) ^ j)"
    using assms(2) by (intro sum_nonneg) auto
  show ?thesis
  proof (cases "s - (c - s * i) \<le> 0")
    case True
    then show ?thesis
      using c0 S0 by (simp add: alcanza_def max_def)
  next
    case False
    have "(s - (c - s * i)) * (1 + i) ^ m = s * (1 + i) ^ Suc m - c * (1 + i) ^ m"
      by (simp add: algebra_simps)
    also have "\<dots> \<le> c * (\<Sum>j<Suc m. (1 + i) ^ j) - c * (1 + i) ^ m"
      using assms(1) by (simp add: alcanza_def)
    also have "\<dots> = c * (\<Sum>j<m. (1 + i) ^ j)"
      by (simp add: algebra_simps)
    finally show ?thesis
      using False by (simp add: alcanza_def max_def)
  qed
qed

lemma alcanza_cero: "alcanza q c s 0 \<Longrightarrow> 0 \<le> s \<Longrightarrow> s = 0"
  by (simp add: alcanza_def)

lemma cuota_fija_alcanza:
  assumes "cuota_fija monto i n = Inr c" "0 \<le> i" "1 \<le> n"
  shows "alcanza (1 + i) c monto (nat n)"
proof (cases "0 < i")
  case True
  let ?q = "1 + i"
  have pw: "?q powi n = ?q ^ nat n"
    using assms(3) by (simp add: power_int_def)
  have gt: "1 < ?q ^ nat n"
    using True assms(3) by (intro one_less_power) auto
  have c: "c = monto * (i * ?q ^ nat n) / (?q ^ nat n - 1)"
    using assms(1) True gt by (simp add: cuota_fija_def pw split: if_splits)
  have "i * (\<Sum>j<nat n. ?q ^ j) = ?q ^ nat n - 1"
    using suma_geometrica [of ?q "nat n"] by simp
  then have S: "(\<Sum>j<nat n. ?q ^ j) = (?q ^ nat n - 1) / i"
    using True by (simp add: field_simps)
  show ?thesis
    using True gt by (simp add: alcanza_def c S)
next
  case False
  with assms(2) have i0: "i = 0" by simp
  have "c = monto / of_int n"
    using assms(1,3) by (simp add: cuota_fija_def i0 split: if_splits)
  then show ?thesis
    using assms(3) by (simp add: alcanza_def i0)
qed


lemma length_filas_francesa [simp]:
  "length (filas_francesa h i c com s ps) = length ps"
  by (induction ps arbitrary: s) (simp_all add: Let_def)

lemma filas_francesa_Nil_iff [simp]:
  "filas_francesa h i c com s ps = [] \<longleftrightarrow> ps = []"
  by (cases ps) (simp_all add: Let_def)

lemma filas_francesa_saldos:
  assumes "alcanza (1 + i) c s (length ps)" "0 \<le> i" "0 \<le> s"
  shows "(\<forall>f \<in> set (filas_francesa h i c com s ps). 0 \<le> saldo f \<and> saldo f \<le> round2 s)
       \<and> sorted_wrt (\<lambda>a b. saldo b \<le> saldo a) (filas_francesa h i c com s ps)
       \<and> (ps \<noteq> [] \<longrightarrow> saldo (last (filas_francesa h i c com s ps)) = 0)"
  using assms
proof (induction ps arbitrary: s)
  case Nil
  then show ?case by simp
next
  case (Cons p ps)
  let ?s' = "max 0 (s - (c - s * i))"
  have inv: "alcanza (1 + i) c ?s' (length ps)"
    using alcanza_paso [of i c s "length ps"] Cons.prems by simp
  have le: "?s' \<le> s"
    using alcanza_interes [of i c s "length ps"] Cons.prems by (simp add: max_def)
  have ge: "0 \<le> ?s'" by simp
  note IH = Cons.IH [OF inv Cons.prems(2) ge]
  have r: "round2 ?s' \<le> round2 s" "0 \<le> round2 ?s'"
    using le ge by (auto intro: round2_mono round2_nonneg)
  have last0: "ps = [] \<Longrightarrow> round2 ?s' = 0"
    using alcanza_cero [of "1 + i" c ?s'] inv ge by (simp add: round2_0)
  show ?case
    using IH r last0 by (auto simp: Let_def)
qed

lemma length_filas_bullet [simp]:
  "length (filas_bullet h i com n s ps) = length ps"
  by (induction ps arbitrary: s) (simp_all add: Let_def)

lemma filas_bullet_Nil_iff [simp]:
  "filas_bullet h i com n s ps = [] \<longleftrightarrow> ps = []"
  by (cases ps) (simp_all add: Let_def)


lemma length_filas_gracia [simp]:
  "length (filas_gracia h i com s ps) = length ps"
  by (simp add: filas_gracia_def)







section \<open>The example schedule\<close>

lemma cuota_filas_francesa:
  "map cuota (filas_francesa h i c com s ps) = replicate (length ps) (round2 c)"
  by (induction ps arbitrary: s) (simp_all add: Let_def)

lemma potencia_no_uno:
  assumes "0 < i" "0 < n"
  shows "(1 + i :: rat) ^ n \<noteq> 1"
proof -
  have "1 < (1 + i) ^ n"
    by (rule one_less_power) (use assms in simp_all)
  then show ?thesis by linarith
qed

lemma cuota_ejemplo:
  "cuota_fija 100000 (1 / 100) 12
     = Inr (100000 * (1 / 100 * (1 + 1 / 100) ^ 12) / ((1 + 1 / 100) ^ 12 - 1))"
  using potencia_no_uno [of "1 / 100" 12]
  by (simp add: cuota_fija_def power_int_def)

lemma round2_cuota_ejemplo:
  "round2 (100000 * (1 / 100 * (1 + 1 / 100) ^ 12) / ((1 + 1 / 100) ^ 12 - 1)) = 888488 / 100"
  by code_simp

text \<open>
  C2. The contract with principal 100000, nominal rate 12, term 12, monthly payments,
  no grace, no bullet and no fees gets a schedule of exactly 12 rows; the payment of
  every row is the annuity formula at i = 12/100/12 and n = 12 rounded to 2 decimals,
  which is 8884.88; the balance of the last row is 0 within 0.01.
\<close>

theorem example_annuity_schedule:
  "\<exists>tabla. generar_tabla_amortizacion fecha_base contrato_ejemplo = Inr tabla
     \<and> length tabla = 12
     \<and> map cuota tabla
         = replicate 12 (round2 (100000 * (1 / 100 * (1 + 1 / 100) ^ 12)
                                   / ((1 + 1 / 100) ^ 12 - 1)))
     \<and> round2 (100000 * (1 / 100 * (1 + 1 / 100) ^ 12) / ((1 + 1 / 100) ^ 12 - 1))
         = 888488 / 100
     \<and> \<bar>saldo (last tabla)\<bar> \<le> 1 / 100"
proof -
  let ?q = "100000 * (1 / 100 * (1 + 1 / 100) ^ 12) / ((1 + 1 / 100) ^ 12 - 1) :: rat"
  let ?t = "filas_francesa fecha_base (1 / 100) ?q 0 100000 [1..12]"
  have t: "generar_tabla_amortizacion fecha_base contrato_ejemplo = Inr ?t"
    by (simp add: generar_tabla_amortizacion_def amortizacion_francesa_def
        contrato_ejemplo_def contrato_vacio_def comision_mant_def cuota_ejemplo Let_def)
  have inv: "alcanza (1 + 1 / 100) ?q 100000 (length [1..12::int])"
    using cuota_fija_alcanza [OF cuota_ejemplo] by simp
  have s: "saldo (last ?t) = 0"
    using filas_francesa_saldos [OF inv, of fecha_base 0] by simp
  show ?thesis
    unfolding t using s round2_cuota_ejemplo
    by (simp add: cuota_filas_francesa del: upto.simps)
qed

section \<open>Divisions by zero\<close>

lemma cuota_fija_cero: "cuota_fija monto i 0 = Inl ZeroDivisionError"
  by (simp add: cuota_fija_def)

lemma calcular_cat_cero:
  "plazo_meses c = 0 \<or> monto_principal c = 0 \<Longrightarrow> calcular_cat c total_int total_com = 0"
  by (auto simp: calcular_cat_def)

text \<open>
  C3. The division of the fixed payment is not guarded: for the contract with every
  field at its default (term 0), and for the example contract with a grace period
  equal to its term, the schedule generation raises \<^verbatim>\<open>ZeroDivisionError\<close>.
\<close>

theorem schedule_term_zero_raises:
  "generar_tabla_amortizacion fecha_base contrato_vacio = Inl ZeroDivisionError
   \<and> generar_tabla_amortizacion fecha_base (contrato_ejemplo\<lparr>periodo_gracia_meses := 12\<rparr>)
       = Inl ZeroDivisionError"
  by (simp add: generar_tabla_amortizacion_def amortizacion_francesa_def
      amortizacion_con_gracia_def contrato_ejemplo_def contrato_vacio_def cuota_fija_cero Let_def)

section \<open>Payment, principal and interest of a row\<close>

lemma suma_redondeos:
  "\<bar>x - p\<bar> \<le> 1 / 2 \<Longrightarrow> \<bar>y - q\<bar> \<le> 1 / 2 \<Longrightarrow> \<bar>z - (p + q)\<bar> \<le> 1 / 2
   \<Longrightarrow> \<bar>x + y - z\<bar> < (2::rat)"
  by linarith

lemma round2_suma:
  "\<bar>round2 a + round2 b - round2 (a + b)\<bar> \<le> 1 / 100"
proof -
  define A where "A = round_half_even (a * 100)"
  define B where "B = round_half_even (b * 100)"
  define C where "C = round_half_even ((a + b) * 100)"
  have "\<bar>of_int A - a * 100\<bar> \<le> 1 / 2" "\<bar>of_int B - b * 100\<bar> \<le> 1 / 2"
    unfolding A_def B_def by (rule round_half_even_bounds)+
  moreover have "\<bar>of_int C - (a * 100 + b * 100)\<bar> \<le> 1 / 2"
    using round_half_even_bounds [of "(a + b) * 100"] by (simp add: C_def algebra_simps)
  ultimately have "\<bar>(of_int A + of_int B - of_int C :: rat)\<bar> < 2"
    by (rule suma_redondeos)
  then have "\<bar>(of_int (A + B - C) :: rat)\<bar> < of_int 2"
    by simp
  then have "\<bar>A + B - C\<bar> < 2"
    unfolding of_int_abs [symmetric] of_int_less_iff .
  then have "\<bar>A + B - C\<bar> \<le> 1" by simp
  then have "(of_int \<bar>A + B - C\<bar> :: rat) \<le> of_int 1"
    unfolding of_int_le_iff .
  then have cota: "\<bar>(of_int (A + B - C) :: rat)\<bar> \<le> 1"
    by simp
  have eq: "round2 a + round2 b - round2 (a + b) = of_int (A + B - C) / 100"
    by (simp add: round2_def A_def B_def C_def diff_divide_distrib add_divide_distrib)
  have "\<bar>(of_int (A + B - C) :: rat) / 100\<bar> = \<bar>of_int (A + B - C)\<bar> / 100"
    by simp
  also have "\<dots> \<le> 1 / 100"
    using cota by (rule divide_right_mono) simp
  finally show ?thesis
    by (simp only: eq)
qed

lemma desglose_cota: "desglose f \<Longrightarrow> \<bar>capital f + interes f - cuota f\<bar> \<le> 1 / 100"
  using round2_suma by (auto simp: desglose_def)

lemma desglose_fila:
  "cu = k + i \<Longrightarrow>
   desglose \<lparr>periodo = p, fecha = d, cuota = round2 cu, capital = round2 k,
             interes = round2 i, saldo = s, comision_mantenimiento = m\<rparr>"
  unfolding desglose_def by (rule exI [of _ k], rule exI [of _ i]) simp

lemma desglose_fila_gracia:
  "desglose \<lparr>periodo = p, fecha = d, cuota = round2 i, capital = 0,
             interes = round2 i, saldo = s, comision_mantenimiento = m\<rparr>"
  unfolding desglose_def by (rule exI [of _ 0], rule exI [of _ i]) (simp add: round2_0)

lemma desglose_francesa: "list_all desglose (filas_francesa h i c com s ps)"
  by (induction ps arbitrary: s) (simp_all add: Let_def desglose_fila)

lemma desglose_bullet: "list_all desglose (filas_bullet h i com n s ps)"
  by (induction ps arbitrary: s) (simp_all add: Let_def desglose_fila)

lemma desglose_gracia: "list_all desglose (filas_gracia h i com s ps)"
  by (simp add: filas_gracia_def list_all_iff desglose_fila_gracia)

lemma desglose_tabla:
  assumes "generar_tabla_amortizacion h c = Inr tabla"
  shows "list_all desglose tabla"
  using assms
  by (auto simp: generar_tabla_amortizacion_def amortizacion_bullet_def
      amortizacion_francesa_def amortizacion_con_gracia_def Let_def
      desglose_francesa desglose_bullet desglose_gracia
      split: if_splits sum.splits)

lemma tabla_corto:
  "generar_tabla_amortizacion 739923 contrato_corto =
     Inr [\<lparr>periodo = 1, fecha = 739953, cuota = 51191 / 100, capital = 49607 / 100,
           interes = 1583 / 100, saldo = 50393 / 100, comision_mantenimiento = 0\<rparr>,
          \<lparr>periodo = 2, fecha = 739983, cuota = 51191 / 100, capital = 50393 / 100,
           interes = 798 / 100, saldo = 0, comision_mantenimiento = 0\<rparr>]"
  by code_simp

text \<open>
  C4, as stated, fails. For principal 1000, nominal rate 19 and term 2 (no fees, no
  grace, so every hypothesis of the claim holds and the maintenance part is 0) the
  first row has principal part 496.07 and interest part 15.83, which add up to 511.90,
  and payment 511.91.
\<close>

theorem row_split_counterexample:
  "0 \<le> monto_principal contrato_corto \<and> 0 \<le> tasa_nominal contrato_corto
   \<and> 1 \<le> plazo_meses contrato_corto \<and> periodo_gracia_meses contrato_corto = 0
   \<and> generar_tabla_amortizacion 739923 contrato_corto =
       Inr [\<lparr>periodo = 1, fecha = 739953, cuota = 51191 / 100, capital = 49607 / 100,
             interes = 1583 / 100, saldo = 50393 / 100, comision_mantenimiento = 0\<rparr>,
            \<lparr>periodo = 2, fecha = 739983, cuota = 51191 / 100, capital = 50393 / 100,
             interes = 798 / 100, saldo = 0, comision_mantenimiento = 0\<rparr>]
   \<and> (49607 / 100 + 1583 / 100 :: rat) \<noteq> 51191 / 100"
  by (simp add: tabla_corto) (simp add: contrato_corto_def contrato_vacio_def)

text \<open>
  C4, amended. In every row of a generated schedule the payment, the principal part and
  the interest part are each rounded to 2 decimals on their own, from amounts where
  principal part plus interest part is the payment; so the rounded principal part plus
  the rounded interest part differs from the rounded payment by at most 0.01.
\<close>

theorem row_split_rounded:
  assumes "generar_tabla_amortizacion fecha_base c = Inr tabla" "f \<in> set tabla"
  shows "(\<exists>k i. capital f = round2 k \<and> interes f = round2 i \<and> cuota f = round2 (k + i))
         \<and> \<bar>capital f + interes f - cuota f\<bar> \<le> 1 / 100"
proof -
  have "desglose f"
    using desglose_tabla [OF assms(1)] assms(2) by (simp add: list_all_iff)
  then show ?thesis
    using desglose_cota [of f] by (simp add: desglose_def)
qed

theorem row_split_rounded_witness:
  "generar_tabla_amortizacion 739923 contrato_corto =
       Inr [\<lparr>periodo = 1, fecha = 739953, cuota = 51191 / 100, capital = 49607 / 100,
             interes = 1583 / 100, saldo = 50393 / 100, comision_mantenimiento = 0\<rparr>,
            \<lparr>periodo = 2, fecha = 739983, cuota = 51191 / 100, capital = 50393 / 100,
             interes = 798 / 100, saldo = 0, comision_mantenimiento = 0\<rparr>]
   \<and> \<bar>(49607 / 100 + 1583 / 100 - 51191 / 100 :: rat)\<bar> \<le> 1 / 100"
  using row_split_rounded [OF tabla_corto,
      of "\<lparr>periodo = 1, fecha = 739953, cuota = 51191 / 100, capital = 49607 / 100,
           interes = 1583 / 100, saldo = 50393 / 100, comision_mantenimiento = 0\<rparr>"]
    tabla_corto
  by simp

section \<open>The confidence score\<close>

lemma fst_penalizar:
  "fst (penalizar b d w st) = fst st - (if b then d else 0)"
  by (simp add: penalizar_def)

lemma length_snd_penalizar:
  "length (snd (penalizar b d w st)) = length (snd st) + (if b then length w else 0)"
  by (simp add: penalizar_def)

lemma cota_deduccion: "0 \<le> d \<Longrightarrow> 0 \<le> (if b then d else 0) \<and> (if b then d else (0::rat)) \<le> d"
  by simp

lemma deducciones_cotas: "0 \<le> deducciones c \<and> deducciones c \<le> 70"
proof -
  define d1 d2 d3 d4 d5 d6 d7 :: rat where
    "d1 = (if monto_principal c = 0 then 20 else 0)"
    and "d2 = (if tasa_nominal c = 0 \<and> tipo_tasa c = FIJA then 15 else 0)"
    and "d3 = (if plazo_meses c = 0 then 15 else 0)"
    and "d4 = (if garantias c = [] then 5 else 0)"
    and "d5 = (if comisiones c = [] then 5 else 0)"
    and "d6 = (if prestamista c = [] then 5 else 0)"
    and "d7 = (if prestatario c = [] then 5 else 0)"
  have "0 \<le> d1 \<and> d1 \<le> 20" "0 \<le> d2 \<and> d2 \<le> 15" "0 \<le> d3 \<and> d3 \<le> 15"
    "0 \<le> d4 \<and> d4 \<le> 5" "0 \<le> d5 \<and> d5 \<le> 5" "0 \<le> d6 \<and> d6 \<le> 5" "0 \<le> d7 \<and> d7 \<le> 5"
    unfolding d1_def d2_def d3_def d4_def d5_def d6_def d7_def
    by (rule cota_deduccion, simp)+
  moreover have "deducciones c = d1 + d2 + d3 + d4 + d5 + d6 + d7"
    by (simp only: deducciones_def d1_def d2_def d3_def d4_def d5_def d6_def d7_def)
  ultimately show ?thesis by linarith
qed


lemma puntaje_max: "fst (calcular_confianza c) = max 0 (100 - deducciones c)"
  unfolding calcular_confianza_def Let_def deducciones_def
  by (simp only: fst_penalizar fst_conv diff_diff_eq add.assoc)

lemma puntaje_confianza: "fst (calcular_confianza c) = 100 - deducciones c"
  using deducciones_cotas [of c] by (simp only: puntaje_max) linarith

lemma advertencias_confianza:
  "length (snd (calcular_confianza c))
     = length (advertencias c)
       + (if monto_principal c = 0 then 1 else 0)
       + (if tasa_nominal c = 0 \<and> tipo_tasa c = FIJA then 1 else 0)
       + (if plazo_meses c = 0 then 1 else 0)
       + (if garantias c = [] then 1 else 0)
       + (if comisiones c = [] then 1 else 0)"
  unfolding calcular_confianza_def Let_def
  by (simp only: length_snd_penalizar snd_conv list.size add_0_right add_0_left if_cancel One_nat_def)


text \<open>
  C5, as stated, fails. The contract with zero principal, zero term, fixed rate 0, no
  guarantees, no fees and no names is the contract with every field at its default,
  and its score is not 45.
\<close>

theorem confidence_degenerate_counterexample:
  "fst (calcular_confianza contrato_vacio) \<noteq> 45"
  by (simp add: puntaje_confianza deducciones_def contrato_vacio_def)

text \<open>
  C5, amended. The score is 100 minus the deductions of the table (20 for principal 0,
  15 for rate 0 at a fixed rate, 15 for term 0, 5 each for no guarantees, no fees, no
  lender name, no borrower name) and lies between 0 and 100; for the contract with
  every field at its default all seven apply, they add up to 70, and the score is 30.
\<close>

theorem confidence_deduction_table:
  "fst (calcular_confianza c) = 100 - deducciones c
   \<and> 0 \<le> fst (calcular_confianza c) \<and> fst (calcular_confianza c) \<le> 100
   \<and> deducciones contrato_vacio = 70
   \<and> fst (calcular_confianza contrato_vacio) = 30"
proof -
  have d: "deducciones contrato_vacio = 70"
    by (simp add: deducciones_def contrato_vacio_def)
  show ?thesis
    using deducciones_cotas [of c] d by (simp add: puntaje_confianza)
qed

text \<open>
  C6. Scoring appends one warning for each of the first five deductions and none for a
  missing lender name or a missing borrower name: the warnings added, plus one for each
  missing name, are as many as the deductions. For the contract with every field at its
  default seven deductions apply and five warnings are added.
\<close>

theorem confidence_warnings:
  "length (snd (calcular_confianza c))
     + (if prestamista c = [] then 1 else 0) + (if prestatario c = [] then 1 else 0)
     = length (advertencias c) + num_deducciones c
   \<and> num_deducciones contrato_vacio = 7
   \<and> length (snd (calcular_confianza contrato_vacio))
       = length (advertencias contrato_vacio) + 5"
proof -
  have n: "num_deducciones contrato_vacio = 7"
    by (simp add: num_deducciones_def contrato_vacio_def)
  have v: "length (snd (calcular_confianza contrato_vacio))
             = length (advertencias contrato_vacio) + 5"
    by (simp add: advertencias_confianza contrato_vacio_def)
  have g: "length (snd (calcular_confianza c))
     + (if prestamista c = [] then 1 else 0) + (if prestatario c = [] then 1 else 0)
     = length (advertencias c) + num_deducciones c"
    by (simp only: advertencias_confianza num_deducciones_def add.assoc)
  show ?thesis using n v g by (simp only: simp_thms)
qed

section \<open>The prepayment clause\<close>

lemma generar_tabla_prepago:
  "generar_tabla_amortizacion h (c\<lparr>prepago := x\<rparr>) = generar_tabla_amortizacion h c"
  by (simp add: generar_tabla_amortizacion_def amortizacion_bullet_def
      amortizacion_francesa_def amortizacion_con_gracia_def Let_def split: sum.splits)

text \<open>
  C10. The result of the prepayment simulation is the same for two contracts that
  differ only in the permitted flag of the prepayment clause, for every target period
  and extra amount; the penalty it reports is the extra amount times the penalty rate
  when the target period is within the penalty window and 0 otherwise, whatever the
  flag says.
\<close>

theorem prepayment_ignores_permitido:
  "calcular_escenario_prepago fecha_base (c\<lparr>prepago := Some (cl\<lparr>permitido := b\<rparr>)\<rparr>) mes monto
     = calcular_escenario_prepago fecha_base (c\<lparr>prepago := Some cl\<rparr>) mes monto
   \<and> map_sum id penalizacion_res
         (calcular_escenario_prepago fecha_base (c\<lparr>prepago := Some cl\<rparr>) mes monto)
     = map_sum id (\<lambda>r. round2 (if mes \<le> periodo_penalizacion_meses cl
                               then monto * penalizacion cl / 100 else 0))
         (calcular_escenario_prepago fecha_base (c\<lparr>prepago := Some cl\<rparr>) mes monto)"
  by (simp add: calcular_escenario_prepago_def generar_tabla_prepago Let_def
      split: sum.splits)

section \<open>The periodic rate of the annuity\<close>

lemma generar_tabla_frecuencia:
  "generar_tabla_amortizacion h (c\<lparr>frecuencia_pago := fr\<rparr>) = generar_tabla_amortizacion h c"
  by (simp add: generar_tabla_amortizacion_def amortizacion_bullet_def
      amortizacion_francesa_def amortizacion_con_gracia_def Let_def split: sum.splits)

lemma cuota_tabla_francesa:
  assumes "\<not> es_bullet c" "periodo_gracia_meses c \<le> 0"
    "generar_tabla_amortizacion h c = Inr tabla"
  shows "\<exists>q. cuota_fija (monto_principal c) (tasa_nominal c / 100 / 12) (plazo_meses c) = Inr q
             \<and> map cuota tabla = replicate (nat (plazo_meses c)) (round2 q)"
  using assms
  by (auto simp: generar_tabla_amortizacion_def amortizacion_francesa_def Let_def
      cuota_filas_francesa split: sum.splits)

lemma round2_cuota_trimestral:
  "round2 (100000 * (3 / 100 * (1 + 3 / 100) ^ 12) / ((1 + 3 / 100) ^ 12 - 1)) = 1004621 / 100"
  by code_simp

lemma round2_cuota_trimestral_4:
  "round2 (100000 * (3 / 100 * (1 + 3 / 100) ^ 4) / ((1 + 3 / 100) ^ 4 - 1)) = 2690270 / 100"
  by code_simp

lemma cuota_fija_pos:
  assumes "0 < i" "0 < n"
  shows "cuota_fija monto i n = Inr (monto * (i * (1 + i) ^ nat n) / ((1 + i) ^ nat n - 1))"
  using potencia_no_uno [of i "nat n"] assms
  by (simp add: cuota_fija_def power_int_def)


lemma tabla_ejemplo:
  "generar_tabla_amortizacion h contrato_ejemplo
     = Inr (filas_francesa h (1 / 100)
              (100000 * (1 / 100 * (1 + 1 / 100) ^ 12) / ((1 + 1 / 100) ^ 12 - 1))
              0 100000 [1..12])"
  by (simp add: generar_tabla_amortizacion_def amortizacion_francesa_def
      contrato_ejemplo_def contrato_vacio_def comision_mant_def cuota_ejemplo Let_def)

lemma cuotas_ejemplo:
  "map_sum id (map cuota) (generar_tabla_amortizacion h contrato_ejemplo)
     = Inr (replicate 12 (888488 / 100))"
proof -
  have "length [1..12::int] = 12" by simp
  then show ?thesis
    by (simp only: tabla_ejemplo map_sum.simps cuota_filas_francesa round2_cuota_ejemplo)
qed

text \<open>
  C8, as stated, fails. The example loan with quarterly payments is routed to the
  standard annuity; every row of its schedule has the payment 8884.88, which is the
  formula at the rate 12/100/12, and not the formula at the rate 12/100/4, which gives
  10046.21 over 12 periods and 26902.70 over 4 periods.
\<close>

theorem quarterly_rate_counterexample:
  "frecuencia_pago contrato_trimestral = TRIMESTRAL
   \<and> \<not> es_bullet contrato_trimestral \<and> periodo_gracia_meses contrato_trimestral = 0
   \<and> map_sum id (map cuota) (generar_tabla_amortizacion 739923 contrato_trimestral)
       = Inr (replicate 12 (888488 / 100))
   \<and> map_sum id round2 (cuota_fija 100000 (12 / 100 / 12) 12) = Inr (888488 / 100)
   \<and> map_sum id round2 (cuota_segun_frecuencia contrato_trimestral) = Inr (1004621 / 100)
   \<and> map_sum id round2 (cuota_fija 100000 (12 / 100 / 4) 4) = Inr (2690270 / 100)"
proof -
  have a: "map_sum id (map cuota) (generar_tabla_amortizacion 739923 contrato_trimestral)
             = Inr (replicate 12 (888488 / 100))"
    unfolding contrato_trimestral_def generar_tabla_frecuencia by (rule cuotas_ejemplo)
  have b: "map_sum id round2 (cuota_fija 100000 (12 / 100 / 12) 12) = Inr (888488 / 100)"
    by code_simp
  have c: "map_sum id round2 (cuota_segun_frecuencia contrato_trimestral) = Inr (1004621 / 100)"
    by code_simp
  have d: "map_sum id round2 (cuota_fija 100000 (12 / 100 / 4) 4) = Inr (2690270 / 100)"
    by code_simp
  have e: "frecuencia_pago contrato_trimestral = TRIMESTRAL
   \<and> \<not> es_bullet contrato_trimestral \<and> periodo_gracia_meses contrato_trimestral = 0"
    by (simp add: contrato_trimestral_def contrato_ejemplo_def contrato_vacio_def)
  show ?thesis
    using a b c d e by (simp only: simp_thms)
qed

text \<open>
  C8, amended. For every contract routed to the standard annuity whose schedule is
  generated, the fixed payment is computed with the periodic rate nominal/100/12 and
  n equal to the term in months, and every row reports it rounded to 2 decimals; the
  payment frequency has no effect on the schedule.
\<close>

theorem annuity_rate_monthly:
  assumes "\<not> es_bullet c" "periodo_gracia_meses c \<le> 0"
    "generar_tabla_amortizacion fecha_base c = Inr tabla"
  shows "(\<exists>q. cuota_fija (monto_principal c) (tasa_nominal c / 100 / 12) (plazo_meses c) = Inr q
              \<and> map cuota tabla = replicate (nat (plazo_meses c)) (round2 q))
         \<and> generar_tabla_amortizacion fecha_base (c\<lparr>frecuencia_pago := fr\<rparr>) = Inr tabla"
  using cuota_tabla_francesa [OF assms] assms(3) by (simp add: generar_tabla_frecuencia)

theorem annuity_rate_monthly_witness:
  "\<not> es_bullet contrato_trimestral \<and> periodo_gracia_meses contrato_trimestral \<le> 0
   \<and> (\<exists>tabla q. generar_tabla_amortizacion 739923 contrato_trimestral = Inr tabla
          \<and> cuota_fija 100000 (12 / 100 / 12) 12 = Inr q
          \<and> map cuota tabla = replicate 12 (round2 q)
          \<and> generar_tabla_amortizacion 739923 (contrato_trimestral\<lparr>frecuencia_pago := MENSUAL\<rparr>)
              = Inr tabla)"
proof -
  have h: "\<not> es_bullet contrato_trimestral" "periodo_gracia_meses contrato_trimestral \<le> 0"
    by (simp_all add: contrato_trimestral_def contrato_ejemplo_def contrato_vacio_def)
  obtain tabla where t: "generar_tabla_amortizacion 739923 contrato_trimestral = Inr tabla"
    unfolding contrato_trimestral_def generar_tabla_frecuencia tabla_ejemplo by blast
  from annuity_rate_monthly [OF h t, of MENSUAL] h t show ?thesis
    by (simp add: contrato_trimestral_def contrato_ejemplo_def contrato_vacio_def)
qed

section \<open>The scenario rates of the sensitivity analysis\<close>

lemma potencia_int_no_uno:
  assumes "0 < i" "n \<noteq> 0"
  shows "(1 + i :: rat) powi n \<noteq> 1"
proof (cases "0 < n")
  case True
  then have "1 < (1 + i) powi n"
    using assms(1) by (intro one_less_power_int) simp_all
  then show ?thesis by linarith
next
  case False
  with assms(2) have "0 < - n" by simp
  then have "1 < (1 + i) powi (- n)"
    using assms(1) by (intro one_less_power_int) simp_all
  then have "(1 + i) powi n < 1"
    by (simp add: power_int_minus one_less_inverse_iff)
  then show ?thesis by linarith
qed

lemma cuota_fija_Inr_iff: "(\<exists>q. cuota_fija monto i n = Inr q) \<longleftrightarrow> n \<noteq> 0"
  using potencia_int_no_uno [of i n]
  by (auto simp: cuota_fija_def)

lemma genera_tabla:
  assumes "es_bullet c \<or> (if 0 < periodo_gracia_meses c
                           then plazo_meses c \<noteq> periodo_gracia_meses c
                           else plazo_meses c \<noteq> 0)"
  shows "\<exists>tabla. generar_tabla_amortizacion h c = Inr tabla"
proof (cases "es_bullet c")
  case True
  then show ?thesis
    by (simp add: generar_tabla_amortizacion_def amortizacion_bullet_def Let_def)
next
  case False
  show ?thesis
  proof (cases "0 < periodo_gracia_meses c")
    case True
    with assms False have "plazo_meses c - periodo_gracia_meses c \<noteq> 0" by simp
    then obtain q where
      "cuota_fija (monto_principal c) (tasa_nominal c / 100 / 12)
         (plazo_meses c - periodo_gracia_meses c) = Inr q"
      using cuota_fija_Inr_iff by blast
    with False True show ?thesis
      by (simp add: generar_tabla_amortizacion_def amortizacion_con_gracia_def Let_def)
  next
    case g: False
    with assms False have "plazo_meses c \<noteq> 0" by simp
    then obtain q where
      "cuota_fija (monto_principal c) (tasa_nominal c / 100 / 12) (plazo_meses c) = Inr q"
      using cuota_fija_Inr_iff by blast
    with False g show ?thesis
      by (simp add: generar_tabla_amortizacion_def amortizacion_francesa_def Let_def)
  qed
qed

lemma escenario_tasa:
  assumes "es_bullet c \<or> (if 0 < periodo_gracia_meses c
                           then plazo_meses c \<noteq> periodo_gracia_meses c
                           else plazo_meses c \<noteq> 0)"
  shows "\<exists>e. escenario h c cs = Inr e \<and> tasa_resultante e = round2 (nueva_tasa c (fst cs))"
proof -
  let ?m = "contrato_modificado c (nueva_tasa c (fst cs))"
  have "es_bullet ?m \<or> (if 0 < periodo_gracia_meses ?m
                           then plazo_meses ?m \<noteq> periodo_gracia_meses ?m
                           else plazo_meses ?m \<noteq> 0)"
    using assms by (auto simp: contrato_modificado_def split: if_splits)
  then obtain t where t: "generar_tabla_amortizacion h ?m = Inr t"
    using genera_tabla by blast
  obtain tb where tb: "generar_tabla_amortizacion h c = Inr tb"
    using genera_tabla [OF assms] by blast
  show ?thesis
    by (simp add: escenario_def Let_def t tb)
qed

lemma para_cada_map:
  assumes "\<forall>x \<in> set xs. \<exists>y. f x = Inr y \<and> g y = k x"
  shows "\<exists>ys. para_cada f xs = Inr ys \<and> map g ys = map k xs"
  using assms
proof (induction xs)
  case Nil
  then show ?case by simp
next
  case (Cons x xs)
  then obtain y ys where "f x = Inr y" "g y = k x" "para_cada f xs = Inr ys" "map g ys = map k xs"
    by auto
  then show ?case by simp
qed

lemma tasas_reportadas_nueva:
  assumes "tipo_tasa c = VARIABLE"
    "es_bullet c \<or> (if 0 < periodo_gracia_meses c
                     then plazo_meses c \<noteq> periodo_gracia_meses c
                     else plazo_meses c \<noteq> 0)"
  shows "tasas_reportadas h c
           = Inr (Some (map (\<lambda>cs. round2 (nueva_tasa c (fst cs))) escenarios))"
proof -
  have "\<forall>cs \<in> set escenarios. \<exists>e. escenario h c cs = Inr e
           \<and> tasa_resultante e = round2 (nueva_tasa c (fst cs))"
    using escenario_tasa [OF assms(2)] by blast
  then obtain es where "para_cada (escenario h c) escenarios = Inr es"
    "map tasa_resultante es = map (\<lambda>cs. round2 (nueva_tasa c (fst cs))) escenarios"
    using para_cada_map [of escenarios "escenario h c" tasa_resultante
        "\<lambda>cs. round2 (nueva_tasa c (fst cs))"] by blast
  then show ?thesis
    using assms(1) by (simp add: tasas_reportadas_def analisis_sensibilidad_def)
qed

lemma nueva_tasa_clamp:
  "cap_tasa c \<noteq> Some 0 \<Longrightarrow> floor_tasa c \<noteq> Some 0 \<Longrightarrow> nueva_tasa c x = tasa_clamp c x"
  by (auto simp: nueva_tasa_def tasa_clamp_def Let_def split: option.splits)

lemma tasas_reportadas_clamp:
  assumes "tipo_tasa c = VARIABLE" "cap_tasa c \<noteq> Some 0" "floor_tasa c \<noteq> Some 0"
    "es_bullet c \<or> (if 0 < periodo_gracia_meses c
                     then plazo_meses c \<noteq> periodo_gracia_meses c
                     else plazo_meses c \<noteq> 0)"
  shows "tasas_reportadas h c = Inr (Some (map round2 (tasas_clamp c)))"
  using tasas_reportadas_nueva [OF assms(1,4)] nueva_tasa_clamp [OF assms(2,3)]
  by (simp add: tasas_clamp_def comp_def)

lemma tasas_tres_decimales:
  "map (\<lambda>cs. round2 (nueva_tasa
          (contrato_variable\<lparr>tasa_nominal := 5123 / 1000, cap_tasa := None, floor_tasa := None\<rparr>)
          (fst cs))) escenarios
     = [412 / 100, 462 / 100, 512 / 100, 562 / 100, 612 / 100, 712 / 100]"
  by code_simp

lemma clamp_tres_decimales:
  "tasas_clamp (contrato_variable\<lparr>tasa_nominal := 5123 / 1000, cap_tasa := None, floor_tasa := None\<rparr>)
     = [4123 / 1000, 4623 / 1000, 5123 / 1000, 5623 / 1000, 6123 / 1000, 7123 / 1000]"
  by code_simp

lemma tasas_floor_cero:
  "map (\<lambda>cs. round2 (nueva_tasa
          (contrato_variable\<lparr>tasa_nominal := 1 / 2, cap_tasa := None, floor_tasa := Some 0\<rparr>)
          (fst cs))) escenarios
     = [- 1 / 2, 0, 1 / 2, 1, 3 / 2, 5 / 2]"
  by code_simp

lemma clamp_floor_cero:
  "tasas_clamp (contrato_variable\<lparr>tasa_nominal := 1 / 2, cap_tasa := None, floor_tasa := Some 0\<rparr>)
     = [0, 0, 1 / 2, 1, 3 / 2, 5 / 2]"
  by code_simp

lemma clamp_variable:
  "map round2 (tasas_clamp contrato_variable) = [4, 9 / 2, 5, 11 / 2, 6, 7]"
  by code_simp

text \<open>
  C9, as stated, fails. A variable-rate loan at 5.123 percent without cap and floor
  reports the scenario rates 4.12, 4.62, 5.12, 5.62, 6.12 and 7.12, where the shifted
  rates are 4.123 and so on: the report rounds to 2 decimals. A variable-rate loan at
  0.5 percent with the floor 0 reports -0.5 for the shift -1.0, where the clamp gives 0.
\<close>

theorem scenario_rate_counterexample:
  "tasas_reportadas 739923
     (contrato_variable\<lparr>tasa_nominal := 5123 / 1000, cap_tasa := None, floor_tasa := None\<rparr>)
     = Inr (Some [412 / 100, 462 / 100, 512 / 100, 562 / 100, 612 / 100, 712 / 100])
   \<and> tasas_clamp
       (contrato_variable\<lparr>tasa_nominal := 5123 / 1000, cap_tasa := None, floor_tasa := None\<rparr>)
     = [4123 / 1000, 4623 / 1000, 5123 / 1000, 5623 / 1000, 6123 / 1000, 7123 / 1000]
   \<and> tasas_reportadas 739923
       (contrato_variable\<lparr>tasa_nominal := 1 / 2, cap_tasa := None, floor_tasa := Some 0\<rparr>)
     = Inr (Some [- 1 / 2, 0, 1 / 2, 1, 3 / 2, 5 / 2])
   \<and> tasas_clamp
       (contrato_variable\<lparr>tasa_nominal := 1 / 2, cap_tasa := None, floor_tasa := Some 0\<rparr>)
     = [0, 0, 1 / 2, 1, 3 / 2, 5 / 2]"
proof -
  have a: "tasas_reportadas 739923
     (contrato_variable\<lparr>tasa_nominal := 5123 / 1000, cap_tasa := None, floor_tasa := None\<rparr>)
     = Inr (Some [412 / 100, 462 / 100, 512 / 100, 562 / 100, 612 / 100, 712 / 100])"
    by (subst tasas_reportadas_nueva)
      (simp_all only: tasas_tres_decimales, simp_all add: contrato_variable_def contrato_vacio_def)
  have b: "tasas_reportadas 739923
       (contrato_variable\<lparr>tasa_nominal := 1 / 2, cap_tasa := None, floor_tasa := Some 0\<rparr>)
     = Inr (Some [- 1 / 2, 0, 1 / 2, 1, 3 / 2, 5 / 2])"
    by (subst tasas_reportadas_nueva)
      (simp_all only: tasas_floor_cero, simp_all add: contrato_variable_def contrato_vacio_def)
  show ?thesis
    using a b clamp_tres_decimales clamp_floor_cero by (simp only: simp_thms)
qed

text \<open>
  C9, amended. For every variable-rate contract whose schedule generation does not
  raise (bullet, or a term different from the grace period when there is one and from
  0 when there is none) and whose cap and floor are each absent or different from 0,
  the rates reported for the shifts -1.0, -0.5, 0, +0.5, +1.0 and +2.0 are the shifted
  nominal rates, clamped by the cap when present and by the floor when present, and
  rounded to 2 decimals.
\<close>

theorem scenario_rate_rounded_clamp:
  assumes "tipo_tasa c = VARIABLE" "cap_tasa c \<noteq> Some 0" "floor_tasa c \<noteq> Some 0"
    "es_bullet c \<or> (if 0 < periodo_gracia_meses c
                     then plazo_meses c \<noteq> periodo_gracia_meses c
                     else plazo_meses c \<noteq> 0)"
  shows "tasas_reportadas fecha_base c = Inr (Some (map round2 (tasas_clamp c)))"
  using assms by (rule tasas_reportadas_clamp)

theorem scenario_rate_rounded_clamp_witness:
  "tipo_tasa contrato_variable = VARIABLE \<and> tasa_nominal contrato_variable = 5
   \<and> cap_tasa contrato_variable = Some 7 \<and> floor_tasa contrato_variable = Some 3
   \<and> \<not> es_bullet contrato_variable \<and> periodo_gracia_meses contrato_variable = 0
   \<and> plazo_meses contrato_variable = 2
   \<and> tasas_reportadas 739923 contrato_variable = Inr (Some [4, 9 / 2, 5, 11 / 2, 6, 7])"
  using scenario_rate_rounded_clamp [of contrato_variable 739923] clamp_variable
  by (simp add: contrato_variable_def contrato_vacio_def)

section \<open>The clock\<close>

lemma redatar_simps [simp]:
  "redatar d [] = []"
  "redatar d (f # fs) = f\<lparr>fecha := fecha f + d\<rparr> # redatar d fs"
  "redatar d (xs @ ys) = redatar d xs @ redatar d ys"
  "length (redatar d t) = length t"
  "map periodo (redatar d t) = map periodo t"
  "map cuota (redatar d t) = map cuota t"
  "map capital (redatar d t) = map capital t"
  "map interes (redatar d t) = map interes t"
  "map saldo (redatar d t) = map saldo t"
  "map comision_mantenimiento (redatar d t) = map comision_mantenimiento t"
  "redatar d t = [] \<longleftrightarrow> t = []"
  by (simp_all add: redatar_def comp_def)

lemma filas_francesa_redatar:
  "filas_francesa (h + d) i c com s ps = redatar d (filas_francesa h i c com s ps)"
  by (induction ps arbitrary: s) (simp_all add: Let_def)

lemma filas_bullet_redatar:
  "filas_bullet (h + d) i com n s ps = redatar d (filas_bullet h i com n s ps)"
  by (induction ps arbitrary: s) (simp_all add: Let_def)

lemma filas_gracia_redatar:
  "filas_gracia (h + d) i com s ps = redatar d (filas_gracia h i com s ps)"
  by (simp add: filas_gracia_def redatar_def)

lemma generar_tabla_redatar:
  "generar_tabla_amortizacion (h + d) c
     = map_sum id (redatar d) (generar_tabla_amortizacion h c)"
  by (simp add: generar_tabla_amortizacion_def amortizacion_bullet_def
      amortizacion_francesa_def amortizacion_con_gracia_def Let_def
      filas_francesa_redatar filas_bullet_redatar filas_gracia_redatar
      split: sum.splits)

lemma fechas_francesa:
  "map fecha (filas_francesa h i c com s ps) = map (\<lambda>p. h + 30 * p) ps"
  by (induction ps arbitrary: s) (simp_all add: Let_def)

lemma fechas_bullet:
  "map fecha (filas_bullet h i com n s ps) = map (\<lambda>p. h + 30 * p) ps"
  by (induction ps arbitrary: s) (simp_all add: Let_def)

lemma fechas_gracia:
  "map fecha (filas_gracia h i com s ps) = map (\<lambda>p. h + 30 * p) ps"
  by (simp add: filas_gracia_def comp_def)

lemma periodos_francesa: "map periodo (filas_francesa h i c com s ps) = ps"
  by (induction ps arbitrary: s) (simp_all add: Let_def)

lemma periodos_bullet: "map periodo (filas_bullet h i com n s ps) = ps"
  by (induction ps arbitrary: s) (simp_all add: Let_def)

lemma periodos_gracia: "map periodo (filas_gracia h i com s ps) = ps"
  by (simp add: filas_gracia_def comp_def)

lemma fechas_tabla:
  "map_sum id (map fecha) (generar_tabla_amortizacion h c)
     = map_sum id (map (\<lambda>f. h + 30 * periodo f)) (generar_tabla_amortizacion h c)"
proof -
  have e: "map (\<lambda>f. h + 30 * periodo f) t = map (\<lambda>p. h + 30 * p) (map periodo t)" for t
    by (simp add: comp_def)
  show ?thesis
    by (simp add: generar_tabla_amortizacion_def amortizacion_bullet_def
        amortizacion_francesa_def amortizacion_con_gracia_def Let_def e
        fechas_francesa fechas_bullet fechas_gracia
        periodos_francesa periodos_bullet periodos_gracia
        split: sum.splits del: map_map)
qed

lemma escenario_redatar: "escenario (h + d) c cs = escenario h c cs"
  by (simp add: escenario_def generar_tabla_redatar Let_def split: sum.splits)

lemma analisis_sensibilidad_redatar:
  "analisis_sensibilidad (h + d) c = analisis_sensibilidad h c"
proof -
  have "escenario (h + d) c = escenario h c"
    by (rule ext) (rule escenario_redatar)
  then show ?thesis
    by (simp add: analisis_sensibilidad_def)
qed

lemma py_slice_hasta_redatar:
  "py_slice_hasta (redatar d t) k = redatar d (py_slice_hasta t k)"
  by (simp add: py_slice_hasta_def redatar_def take_map)

lemma py_index_redatar:
  "map_sum id saldo (py_index (redatar d t) k) = map_sum id saldo (py_index t k)"
proof -
  have "saldo (redatar d t ! j) = saldo (t ! j)" if "j < length t" for j
    using that by (simp add: redatar_def)
  then show ?thesis
    by (auto simp: py_index_def Let_def)
qed

lemma calcular_escenario_prepago_redatar:
  "calcular_escenario_prepago (h + d) c mes monto = calcular_escenario_prepago h c mes monto"
proof (cases "generar_tabla_amortizacion h c")
  case (Inl e)
  then show ?thesis
    by (simp add: calcular_escenario_prepago_def generar_tabla_redatar)
next
  case (Inr t)
  have i: "map_sum id (\<lambda>fila. saldo fila - monto) (py_index (redatar d t) (mes - 1))
             = map_sum id (\<lambda>fila. saldo fila - monto) (py_index t (mes - 1))"
    using py_index_redatar [of d t "mes - 1"]
    by (cases "py_index (redatar d t) (mes - 1)"; cases "py_index t (mes - 1)") simp_all
  show ?thesis
    by (simp add: calcular_escenario_prepago_def generar_tabla_redatar Inr Let_def
        py_slice_hasta_redatar i)
qed

lemma calcular_total_comisiones_redatar:
  "calcular_total_comisiones c (redatar d t) = calcular_total_comisiones c t"
  by (simp add: calcular_total_comisiones_def cong: if_cong)

lemma calcular_vpn_redatar: "calcular_vpn c (redatar d t) = calcular_vpn c t"
  by (simp add: calcular_vpn_def redatar_def comp_def)

lemma calcular_tir_redatar: "calcular_tir irr c (redatar d t) = calcular_tir irr c t"
  by (simp add: calcular_tir_def redatar_def comp_def)

lemma primera_cuota_redatar:
  "(case redatar d t of [] \<Rightarrow> 0 | fila # _ \<Rightarrow> cuota fila)
     = (case t of [] \<Rightarrow> 0 | fila # _ \<Rightarrow> cuota fila)"
  by (cases t) simp_all

lemma calcular_redatar:
  "calcular irr rates (h + d) c
     = map_sum id (tabla_amortizacion_update (redatar d)) (calcular irr rates h c)"
proof (cases "generar_tabla_amortizacion h c")
  case (Inl e)
  then show ?thesis
    by (simp add: calcular_def generar_tabla_redatar)
next
  case (Inr t)
  show ?thesis
    by (simp add: calcular_def generar_tabla_redatar Inr Let_def
        calcular_total_comisiones_redatar calcular_vpn_redatar calcular_tir_redatar
        primera_cuota_redatar analisis_sensibilidad_redatar
        split: sum.splits)
qed

text \<open>
  C7, as stated, fails. Two runs of the schedule generation for the same contract, one
  on day 739923 and one on the next day, return rows with different dates.
\<close>

theorem schedule_dates_counterexample:
  "map_sum id (map fecha) (generar_tabla_amortizacion 739923 contrato_corto)
     = Inr [739953, 739983]
   \<and> map_sum id (map fecha) (generar_tabla_amortizacion 739924 contrato_corto)
     = Inr [739954, 739984]
   \<and> generar_tabla_amortizacion 739923 contrato_corto
     \<noteq> generar_tabla_amortizacion 739924 contrato_corto"
proof -
  have "generar_tabla_amortizacion 739924 contrato_corto
          = map_sum id (redatar 1) (generar_tabla_amortizacion 739923 contrato_corto)"
    using generar_tabla_redatar [of 739923 1 contrato_corto] by simp
  then show ?thesis
    by (simp add: tabla_corto)
qed

text \<open>
  C7, amended. Every public computation is a function of its input and of the day on
  which it runs. For a fixed contract, two runs on days that are \<open>d\<close> days apart
  return schedules that differ only in the dates, each moved by \<open>d\<close> days, the date
  of a row being the day of the run plus 30 days per period; the financial results
  differ only in the dates of their schedules; the sensitivity analysis and the
  prepayment simulation (for a fixed period and amount) return equal results.
\<close>

theorem results_up_to_dates:
  "generar_tabla_amortizacion (fecha_base + d) c
     = map_sum id (redatar d) (generar_tabla_amortizacion fecha_base c)
   \<and> map_sum id (map fecha) (generar_tabla_amortizacion fecha_base c)
     = map_sum id (map (\<lambda>f. fecha_base + 30 * periodo f))
         (generar_tabla_amortizacion fecha_base c)
   \<and> calcular irr rates (fecha_base + d) c
     = map_sum id (tabla_amortizacion_update (redatar d)) (calcular irr rates fecha_base c)
   \<and> analisis_sensibilidad (fecha_base + d) c = analisis_sensibilidad fecha_base c
   \<and> calcular_escenario_prepago (fecha_base + d) c mes monto
     = calcular_escenario_prepago fecha_base c mes monto"
  using generar_tabla_redatar [of fecha_base d c] fechas_tabla [of fecha_base c]
    calcular_redatar [of irr rates fecha_base d c]
    analisis_sensibilidad_redatar [of fecha_base d c]
    calcular_escenario_prepago_redatar [of fecha_base d c mes monto]
  by (simp only: simp_thms)

end
